theory Spec2Isabelle
  imports Complex_Main
begin

section \<open>The profile tree and the derived display data\<close>

text \<open>
  The profile tree is the value of \<^verbatim>\<open>response['tree']['children']\<close> after
  \<^verbatim>\<open>JSON.parse\<close>. A node is a JSON object with the keys \<^verbatim>\<open>id\<close>, \<^verbatim>\<open>name\<close>,
  \<^verbatim>\<open>percentage\<close> and \<^verbatim>\<open>children\<close>; the last two may be missing, which is
  \<^verbatim>\<open>undefined\<close> in the program and \<open>None\<close> here. A JSON number literal denotes a
  rational, so numbers are \<^typ>\<open>rat\<close>; the rounding of IEEE doubles is outside the model.
\<close>

datatype node = Node (n_id: string) (n_name: string) (n_percentage: "rat option")
  (n_children: "node list option")

text \<open>
  The object built by \<^verbatim>\<open>createChildFromJSON\<close>, with the keys \<^verbatim>\<open>id\<close>, \<^verbatim>\<open>name\<close>,
  \<^verbatim>\<open>value\<close>, \<^verbatim>\<open>type\<close>, \<^verbatim>\<open>hasChildren\<close> and \<^verbatim>\<open>graphURL\<close>.
\<close>

record child =
  it_id :: string
  it_name :: string
  it_value :: "string option"
  it_type :: string
  it_hasChildren :: string
  it_graphURL :: "string option"

text \<open>
  The same object after the \<^verbatim>\<open>forEach\<close> of \<^verbatim>\<open>parseDescriptionFromWatsonResponse\<close>
  has added \<^verbatim>\<open>showGraph\<close> (a string), \<^verbatim>\<open>isHeader\<close>, \<^verbatim>\<open>isSubheader\<close> and
  \<^verbatim>\<open>isLeaf\<close> (booleans).
\<close>

record display_item = child +
  it_showGraph :: string
  it_isHeader :: bool
  it_isSubheader :: bool
  it_isLeaf :: bool

text \<open>One element of the array built by \<^verbatim>\<open>createChartData\<close>.\<close>

record chart_slice =
  sl_value :: string
  sl_color :: string
  sl_highlight :: string
  sl_label :: string

datatype error = TypeError

section \<open>Numbers to strings\<close>

definition digit :: "nat \<Rightarrow> char" where
  "digit d = ''0123456789'' ! d"

text \<open>\<^verbatim>\<open>Number.prototype.toString\<close> on a non-negative integer: its decimal numeral.\<close>

function toString :: "nat \<Rightarrow> string" where
  "toString n = (if n < 10 then [digit n] else toString (n div 10) @ [digit (n mod 10)])"
  by pat_completeness auto
termination
  by (relation "measure (\<lambda>n. n)") auto

declare toString.simps [simp del]

text \<open>
  \<^verbatim>\<open>x.toFixed(2)\<close> for a number below \<open>10^21\<close> in absolute value: the sign, then
  the integer \<open>n\<close> for which \<open>n / 100\<close> is closest to \<open>|x|\<close> (the larger one on a
  tie), written with two fractional digits.
\<close>

definition toFixed2 :: "rat \<Rightarrow> string" where
  "toFixed2 x =
     (let n = nat \<lfloor>\<bar>x\<bar> * 100 + 1 / 2\<rfloor>
      in (if x < 0 then ''-'' else '''') @ toString (n div 100) @ ''.''
           @ [digit (n mod 100 div 10), digit (n mod 10)])"

section \<open>The tree flattener\<close>

text \<open>
  \<^verbatim>\<open>function formatPercentage(percentage) {
      if (percentage) { return (percentage * 100).toFixed(2) + '%'; } }\<close>
  The test is JavaScript truthiness: \<^verbatim>\<open>undefined\<close> and the number 0 both fail it.
\<close>

definition formatPercentage :: "rat option \<Rightarrow> string option" where
  "formatPercentage percentage =
     (case percentage of
        None \<Rightarrow> None
      | Some p \<Rightarrow> if p \<noteq> 0 then Some (toFixed2 (p * 100) @ ''%'') else None)"

definition idsWithGraphs :: "string list" where
  "idsWithGraphs = [''personality'', ''Openness'', ''Conscientiousness'', ''Extraversion'',
     ''Agreeableness'', ''Neuroticism'', ''needs'', ''values'']"

text \<open>
  \<^verbatim>\<open>createChildFromJSON(json, nestLevel)\<close>; \<open>url\<close> is \<^verbatim>\<open>appEnv.url\<close>. The key
  \<^verbatim>\<open>hasChildren\<close> is the boolean \<^verbatim>\<open>json['children'] !== undefined\<close> turned into a
  string.
\<close>

definition createChildFromJSON :: "string \<Rightarrow> node \<Rightarrow> nat \<Rightarrow> child" where
  "createChildFromJSON url json nestLevel =
     \<lparr>it_id = n_id json,
      it_name = n_name json,
      it_value = formatPercentage (n_percentage json),
      it_type = toString (nestLevel + 1),
      it_hasChildren = (if n_children json \<noteq> None then ''true'' else ''false''),
      it_graphURL = (if n_id json \<in> set idsWithGraphs
                     then Some (url @ ''/getGraph/'' @ n_id json) else None)\<rparr>"

text \<open>
  \<^verbatim>\<open>parseChildren(itemRoot, nestLevel)\<close>: \<open>None\<close> is an \<^verbatim>\<open>itemRoot\<close> that is
  missing, which fails the test \<^verbatim>\<open>itemRoot && Array.isArray(itemRoot)\<close>. The
  \<^verbatim>\<open>for\<close> loop is \<open>parseChildren_loop\<close>, with \<^verbatim>\<open>allChildren\<close> as its last argument.
\<close>

fun parseChildren :: "string \<Rightarrow> node list option \<Rightarrow> nat \<Rightarrow> child list"
  and parseChildren_loop :: "string \<Rightarrow> node list \<Rightarrow> nat \<Rightarrow> child list \<Rightarrow> child list" where
  "parseChildren url None nestLevel = []"
| "parseChildren url (Some itemRoot) nestLevel = parseChildren_loop url itemRoot nestLevel []"
| "parseChildren_loop url [] nestLevel allChildren = allChildren"
| "parseChildren_loop url (Node i nm p ch # rest) nestLevel allChildren =
     parseChildren_loop url rest nestLevel
       ((allChildren @ [createChildFromJSON url (Node i nm p ch) nestLevel])
          @ parseChildren url ch (nestLevel + 1))"

definition isHeader :: "'a child_scheme \<Rightarrow> bool" where
  "isHeader item \<longleftrightarrow> it_type item = ''1''"

definition isSubheader :: "'a child_scheme \<Rightarrow> bool" where
  "isSubheader item \<longleftrightarrow> it_type item = ''3'' \<and> it_hasChildren item = ''true''"

definition isLeaf :: "'a child_scheme \<Rightarrow> bool" where
  "isLeaf item \<longleftrightarrow>
     it_hasChildren item = ''false'' \<and> (it_type item = ''3'' \<or> it_type item = ''4'')"

text \<open>
  The body of the \<^verbatim>\<open>forEach\<close>: a truthy \<^verbatim>\<open>graphURL\<close> (a string that is not empty)
  gets \<^verbatim>\<open>'/?sessionId=' + sessionID\<close> appended and \<^verbatim>\<open>showGraph\<close> becomes the string
  \<^verbatim>\<open>'true'\<close>, otherwise \<^verbatim>\<open>'false'\<close>; then the three classification keys are computed
  from the item.
\<close>

definition annotate :: "string \<Rightarrow> child \<Rightarrow> display_item" where
  "annotate sessionID item =
     (let truthy = (case it_graphURL item of Some u \<Rightarrow> u \<noteq> [] | None \<Rightarrow> False);
          item1 = (if truthy
                   then item\<lparr>it_graphURL :=
                          map_option (\<lambda>u. u @ ''/?sessionId='' @ sessionID) (it_graphURL item)\<rparr>
                   else item)
      in child.extend item1
           \<lparr>it_showGraph = (if truthy then ''true'' else ''false''),
            it_isHeader = isHeader item1,
            it_isSubheader = isSubheader item1,
            it_isLeaf = isLeaf item1\<rparr>)"

text \<open>
  \<^verbatim>\<open>parseDescriptionFromWatsonResponse(req, response)\<close>, with \<open>sessionID\<close> for
  \<^verbatim>\<open>req.query.sessionId\<close> and \<open>tree\<close> for \<^verbatim>\<open>response['tree']['children']\<close>.
\<close>

definition parseDescriptionFromWatsonResponse ::
    "string \<Rightarrow> string \<Rightarrow> node list option \<Rightarrow> display_item list" where
  "parseDescriptionFromWatsonResponse url sessionID tree =
     map (annotate sessionID)
       (filter (\<lambda>item. it_type item \<noteq> ''2'') (parseChildren url tree 0))"

section \<open>The subtree locator and the chart data\<close>

text \<open>
  \<^verbatim>\<open>getChildWithId(id, itemRoot)\<close>. Falling off the end of the function returns
  \<^verbatim>\<open>undefined\<close>, which is \<open>None\<close>. A node is an object and so always truthy in the
  test \<^verbatim>\<open>if (child)\<close> after the recursive call.
\<close>

fun getChildWithId :: "string \<Rightarrow> node list option \<Rightarrow> node option"
  and getChildWithId_loop :: "string \<Rightarrow> node list \<Rightarrow> node option" where
  "getChildWithId ident None = None"
| "getChildWithId ident (Some itemRoot) = getChildWithId_loop ident itemRoot"
| "getChildWithId_loop ident [] = None"
| "getChildWithId_loop ident (Node i nm p ch # rest) =
     (if i = ident
      then (case ch of
              Some [only] \<Rightarrow> Some only
            | _ \<Rightarrow> Some (Node i nm p ch))
      else (case getChildWithId ident ch of
              Some found \<Rightarrow> Some found
            | None \<Rightarrow> getChildWithId_loop ident rest))"

definition colors :: "string list" where
  "colors = [''#4178BD'', ''#9854D4'', ''#01B4A0'', ''#D74009'', ''#323232'', ''#EDC01C'']"

definition highlights :: "string list" where
  "highlights = [''#5596E6'', ''#AF6EE8'', ''#41D6C3'', ''#FF5006'', ''#555555'', ''#FAE249'']"

text \<open>
  \<^verbatim>\<open>(child['percentage'] * 100).toFixed(2)\<close>: a missing percentage makes the
  product \<^verbatim>\<open>NaN\<close>, which \<^verbatim>\<open>toFixed\<close> prints as \<^verbatim>\<open>"NaN"\<close>.
\<close>

definition chartValue :: "rat option \<Rightarrow> string" where
  "chartValue percentage =
     (case percentage of None \<Rightarrow> ''NaN'' | Some p \<Rightarrow> toFixed2 (p * 100))"

text \<open>The \<^verbatim>\<open>for\<close> loop of \<^verbatim>\<open>createChartData\<close>, from index \<open>i\<close> on.\<close>

function createChartData_loop :: "node list \<Rightarrow> nat \<Rightarrow> chart_slice list \<Rightarrow> chart_slice list" where
  "createChartData_loop children i data =
     (if i < length children
      then createChartData_loop children (i + 1)
             (data @ [\<lparr>sl_value = chartValue (n_percentage (children ! i)),
                       sl_color = colors ! (i mod length colors),
                       sl_highlight = highlights ! (i mod length highlights),
                       sl_label = n_name (children ! i)\<rparr>])
      else data)"
  by pat_completeness auto
termination
  by (relation "measure (\<lambda>(children, i, data). length children - i)") auto

declare createChartData_loop.simps [simp del]

text \<open>
  \<^verbatim>\<open>createChartData(rootJSON)\<close>. When the key \<^verbatim>\<open>children\<close> is missing,
  \<^verbatim>\<open>children.length\<close> reads a property of \<^verbatim>\<open>undefined\<close> and throws a TypeError.
\<close>

definition createChartData :: "node \<Rightarrow> error + chart_slice list" where
  "createChartData rootJSON =
     (case n_children rootJSON of
        None \<Rightarrow> Inl TypeError
      | Some children \<Rightarrow> Inr (createChartData_loop children 0 []))"

text \<open>
  The handler of \<^verbatim>\<open>/getGraph/:watsonId\<close> once the stored tree is loaded: the chart
  data of the located node, or \<open>None\<close> for the 404 page.
\<close>

definition getGraph :: "string \<Rightarrow> node list option \<Rightarrow> (error + chart_slice list) option" where
  "getGraph watsonId itemRoot =
     (case getChildWithId watsonId itemRoot of
        Some child \<Rightarrow> Some (createChartData child)
      | None \<Rightarrow> None)"

section \<open>Pre-order traversal, as the specification words it\<close>

text \<open>
  For each node: the node itself with its depth, then all its descendants, then its next
  sibling. The depth counts from the root's direct children, which have depth 0.
\<close>

fun preorder :: "nat \<Rightarrow> node list \<Rightarrow> (nat \<times> node) list" where
  "preorder d [] = []"
| "preorder d (Node i nm p ch # rest) =
     (d, Node i nm p ch)
       # (case ch of None \<Rightarrow> [] | Some cs \<Rightarrow> preorder (d + 1) cs) @ preorder d rest"

text \<open>
  The unwrapping rule of the locator, as the specification words it: a matched node with
  exactly one child stands for that child.
\<close>

definition childCount :: "node \<Rightarrow> nat" where
  "childCount m = (case n_children m of None \<Rightarrow> 0 | Some cs \<Rightarrow> length cs)"

definition unwrap :: "node \<Rightarrow> node" where
  "unwrap m = (case n_children m of Some [only] \<Rightarrow> only | _ \<Rightarrow> m)"

section \<open>Example inputs\<close>

definition exampleTree :: "node list" where
  "exampleTree =
     [Node ''personality'' ''Big 5'' None
        (Some [Node ''Openness'' ''Openness'' (Some (4212 / 10000))
                 (Some [Node ''Intellect'' ''Intellect'' (Some 1) None])]),
      Node ''empty'' ''Empty'' None (Some []),
      Node ''leaf'' ''Leaf'' (Some 0) None]"

definition locatorTree :: "node list" where
  "locatorTree =
     [Node ''values'' ''Values'' None
        (Some [Node ''inner'' ''Inner values'' None
                 (Some [Node ''needs'' ''Needs'' None
                          (Some [Node ''n1'' ''Challenge'' (Some (1 / 2)) None,
                                 Node ''n2'' ''Closeness'' (Some (1 / 4)) None,
                                 Node ''n3'' ''Curiosity'' (Some (1 / 8)) None])])]),
      Node ''needs'' ''Second needs'' None None]"

definition chartNode :: node where
  "chartNode = Node ''needs'' ''Needs'' None
     (Some (map (\<lambda>k. Node ''n'' ''Need'' (Some (1 / 8)) None) [0..<8]))"

section \<open>Decimal numerals\<close>

lemma digit_inj: "d < 10 \<Longrightarrow> e < 10 \<Longrightarrow> digit d = digit e \<Longrightarrow> d = e"
  unfolding digit_def
  by (auto simp: less_Suc_eq numeral_eq_Suc nth_Cons')

lemma toString_small: "n < 10 \<Longrightarrow> toString n = [digit n]"
  by (simp add: toString.simps)

lemma toString_large: "10 \<le> n \<Longrightarrow> toString n = toString (n div 10) @ [digit (n mod 10)]"
  by (subst toString.simps) simp

lemma toString_nonempty: "toString n \<noteq> []"
  by (subst toString.simps) simp

text \<open>Different depths have different depth tags.\<close>

lemma toString_inj: "toString m = toString n \<Longrightarrow> m = n"
proof (induction m arbitrary: n rule: less_induct)
  case (less m)
  show ?case
  proof (cases "m < 10")
    case True
    note m = this
    show ?thesis
    proof (cases "n < 10")
      case True
      with m less.prems show ?thesis
        by (simp add: toString_small digit_inj)
    next
      case False
      with m less.prems toString_nonempty [of "n div 10"] show ?thesis
        by (simp add: toString_small toString_large)
    qed
  next
    case False
    note m = this
    show ?thesis
    proof (cases "n < 10")
      case True
      with m less.prems toString_nonempty [of "m div 10"] show ?thesis
        by (simp add: toString_small toString_large)
    next
      case False
      with m less.prems
      have a: "toString (m div 10) = toString (n div 10)"
        and b: "digit (m mod 10) = digit (n mod 10)"
        by (simp_all add: toString_large)
      from m have "m div 10 < m" by simp
      from less.IH [OF this a] have c: "m div 10 = n div 10" .
      from b have d: "m mod 10 = n mod 10" by (simp add: digit_inj)
      from c d show ?thesis by (metis div_mult_mod_eq)
    qed
  qed
qed

lemma toString_digits:
  "toString 1 = ''1''" "toString 2 = ''2''" "toString 3 = ''3''" "toString 4 = ''4''"
  by (simp_all add: toString_small digit_def)

lemma toString_eq_2: "toString n = ''2'' \<longleftrightarrow> n = 2"
  using toString_inj [of n 2] toString_digits(2) by auto

section \<open>The loops as list functions\<close>

lemma parse_preorder:
  "parseChildren url ro l =
     (case ro of None \<Rightarrow> []
      | Some ts \<Rightarrow> map (\<lambda>(d, n). createChildFromJSON url n d) (preorder l ts))"
  "parseChildren_loop url ts l acc =
     acc @ map (\<lambda>(d, n). createChildFromJSON url n d) (preorder l ts)"
  by (induction url ro l and url ts l acc rule: parseChildren_parseChildren_loop.induct)
     (simp_all split: option.splits)

lemma type_is_2: "it_type (createChildFromJSON url n d) = ''2'' \<longleftrightarrow> d = 1"
  by (simp add: createChildFromJSON_def toString_eq_2)

lemma flatten_preorder:
  "parseDescriptionFromWatsonResponse url sid (Some ts) =
     map (\<lambda>(d, n). annotate sid (createChildFromJSON url n d))
       (filter (\<lambda>(d, n). d \<noteq> 1) (preorder 0 ts))"
proof -
  have "(\<lambda>x. it_type (case x of (d, n) \<Rightarrow> createChildFromJSON url n d) \<noteq> ''2'')
          = (\<lambda>(d, n). d \<noteq> 1)"
    by (auto simp: type_is_2)
  then show ?thesis
    by (simp add: parseDescriptionFromWatsonResponse_def parse_preorder(1) filter_map
          comp_def case_prod_unfold)
qed

lemma preorder_nodes: "map snd (preorder d ts) = map snd (preorder e ts)"
proof (induction d ts arbitrary: e rule: preorder.induct)
  case (1 d)
  show ?case by simp
next
  case (2 d i nm p ch rest)
  show ?case
  proof (cases ch)
    case None
    with "2.IH"(2) [of e] show ?thesis by simp
  next
    case (Some cs)
    with "2.IH"(1) [of cs "e + 1"] "2.IH"(2) [of e] show ?thesis by simp
  qed
qed

lemma find_app:
  "find P (xs @ ys) = (case find P xs of None \<Rightarrow> find P ys | Some x \<Rightarrow> Some x)"
  by (induction xs) simp_all

lemma getChildWithId_find:
  "getChildWithId t ro =
     (case ro of None \<Rightarrow> None
      | Some ts \<Rightarrow> map_option unwrap (find (\<lambda>n. n_id n = t) (map snd (preorder 0 ts))))"
  "getChildWithId_loop t ts =
     map_option unwrap (find (\<lambda>n. n_id n = t) (map snd (preorder 0 ts)))"
proof (induction t ro and t ts rule: getChildWithId_getChildWithId_loop.induct)
  case (4 ident i nm p ch rest)
  show ?case
  proof (cases "i = ident")
    case True
    then show ?thesis by (simp add: unwrap_def split: option.splits list.splits)
  next
    case False
    note ne = this
    show ?thesis
    proof (cases ch)
      case None
      with ne "4.IH"(2) show ?thesis by simp
    next
      case (Some cs)
      have "map snd (preorder (Suc 0) cs) = map snd (preorder 0 cs)"
        by (rule preorder_nodes)
      with Some ne "4.IH" show ?thesis
        by (simp add: find_app split: option.splits)
    qed
  qed
qed simp_all

lemma chart_loop:
  "createChartData_loop cs i data =
     data @ map (\<lambda>j. \<lparr>sl_value = chartValue (n_percentage (cs ! j)),
                       sl_color = colors ! (j mod length colors),
                       sl_highlight = highlights ! (j mod length highlights),
                       sl_label = n_name (cs ! j)\<rparr>) [i..<length cs]"
proof (induction cs i data rule: createChartData_loop.induct)
  case (1 children i data)
  show ?case
  proof (cases "i < length children")
    case True
    with "1.IH" show ?thesis
      by (subst createChartData_loop.simps) (simp add: upt_conv_Cons)
  next
    case False
    then show ?thesis
      by (subst createChartData_loop.simps) simp
  qed
qed

lemma palette_sizes: "length colors = 6" "length highlights = 6"
  by (simp_all add: colors_def highlights_def)

section \<open>Evaluation on the example inputs\<close>

lemma example_preorder:
  "preorder 0 exampleTree =
     [(0, Node ''personality'' ''Big 5'' None
        (Some [Node ''Openness'' ''Openness'' (Some (4212 / 10000))
                 (Some [Node ''Intellect'' ''Intellect'' (Some 1) None])])),
      (1, Node ''Openness'' ''Openness'' (Some (4212 / 10000))
                 (Some [Node ''Intellect'' ''Intellect'' (Some 1) None])),
      (2, Node ''Intellect'' ''Intellect'' (Some 1) None),
      (0, Node ''empty'' ''Empty'' None (Some [])),
      (0, Node ''leaf'' ''Leaf'' (Some 0) None)]"
  by (simp add: exampleTree_def)

text \<open>
  The specification's example \<open>root \<rightarrow> [A[B, C], D]\<close> is emitted as \<open>A, B, C, D\<close>,
  before the filter.
\<close>

lemma preorder_ABCD:
  "map it_id (parseChildren url
     (Some [Node ''A'' ''a'' None (Some [Node ''B'' ''b'' None None, Node ''C'' ''c'' None None]),
            Node ''D'' ''d'' None None]) 0) = [''A'', ''B'', ''C'', ''D'']"
  by (simp add: createChildFromJSON_def)

section \<open>Percentage formatting\<close>

lemma formatPercentage_nonzero:
  "p \<noteq> 0 \<Longrightarrow> formatPercentage (Some p) = Some (toFixed2 (p * 100) @ ''%'')"
  by (simp add: formatPercentage_def)

lemma formatPercentage_absent: "formatPercentage None = None"
  by (simp add: formatPercentage_def)

lemma floor_numeral_div: "\<lfloor>numeral a / numeral b :: rat\<rfloor> = numeral a div numeral b"
  using floor_divide_of_int_eq [of "numeral a" "numeral b", where ?'a = rat] by simp

text \<open>The two examples of the specification, and the chart path on a missing percentage.\<close>

lemma formatPercentage_examples:
  "formatPercentage (Some (4212 / 10000)) = Some ''42.12%''"
  "formatPercentage (Some 1) = Some ''100.00%''"
  by (simp_all add: formatPercentage_def toFixed2_def Let_def toString_small toString_large
        digit_def floor_numeral_div)

lemma chartValue_examples:
  "chartValue (Some (1 / 8)) = ''12.50''"
  "chartValue None = ''NaN''"
  by (simp_all add: chartValue_def toFixed2_def Let_def toString_small toString_large
        digit_def floor_numeral_div)

text \<open>
  Claim C1 (the value of an item is the percentage times 100 with two decimals and a
  percent sign whenever the node carries a percentage in \<open>[0, 1]\<close>, and is absent only
  when the percentage is absent): the flattener gives a node whose percentage is the number
  0 no value at all, because \<^verbatim>\<open>if (percentage)\<close> tests truthiness, while the chart path
  prints the same percentage as \<^verbatim>\<open>"0.00"\<close>.
\<close>

theorem formatPercentage_zero_is_absent:
  "map (\<lambda>item. (it_id item, it_value item))
     (parseDescriptionFromWatsonResponse url sid (Some [Node ''leaf'' ''Leaf'' (Some 0) None]))
     = [(''leaf'', None)]
   \<and> formatPercentage (Some 0) = None
   \<and> chartValue (Some 0) = ''0.00''"
  by (simp add: flatten_preorder annotate_def createChildFromJSON_def formatPercentage_def
        Let_def idsWithGraphs_def child.defs chartValue_def toFixed2_def toString_small digit_def)

section \<open>Annotation of the items\<close>

lemma it_fields_annotate:
  "it_id (annotate sid c) = it_id c"
  "it_name (annotate sid c) = it_name c"
  "it_value (annotate sid c) = it_value c"
  "it_type (annotate sid c) = it_type c"
  "it_hasChildren (annotate sid c) = it_hasChildren c"
  by (simp_all add: annotate_def Let_def child.defs)

lemma graph_annotate:
  "it_graphURL (annotate sid (createChildFromJSON url n d)) =
     (if n_id n \<in> set idsWithGraphs
      then Some (url @ ''/getGraph/'' @ n_id n @ ''/?sessionId='' @ sid) else None)"
  "it_showGraph (annotate sid (createChildFromJSON url n d)) =
     (if n_id n \<in> set idsWithGraphs then ''true'' else ''false'')"
  by (simp_all add: annotate_def Let_def child.defs createChildFromJSON_def)

text \<open>
  Claim C2 as stated (graphURL is the base URL, \<^verbatim>\<open>/getGraph/\<close>, the id,
  \<^verbatim>\<open>?sessionId=\<close> and the session id) fails: for the node \<^verbatim>\<open>Openness\<close>, base URL
  \<^verbatim>\<open>http://host\<close> and session \<^verbatim>\<open>s1\<close> the URL of the emitted item is not
  \<^verbatim>\<open>http://host/getGraph/Openness?sessionId=s1\<close>.
\<close>

theorem graphURL_counterexample:
  "map it_graphURL (parseDescriptionFromWatsonResponse ''http://host'' ''s1''
      (Some [Node ''Openness'' ''Openness'' (Some 1) None]))
     \<noteq> [Some (''http://host'' @ ''/getGraph/'' @ ''Openness'' @ ''?sessionId='' @ ''s1'')]"
  by (simp add: flatten_preorder graph_annotate idsWithGraphs_def)

text \<open>
  Claim C2, amended: the emitted items are those of the nodes in pre-order whose depth tag
  is not 2, and for each of them: if the node's id is in the allow-list, showGraph is the
  string \<^verbatim>\<open>"true"\<close> and graphURL is the base URL, \<^verbatim>\<open>/getGraph/\<close>, the id,
  \<^verbatim>\<open>/?sessionId=\<close> and the session id; otherwise showGraph is the string
  \<^verbatim>\<open>"false"\<close> and graphURL is absent.
\<close>

theorem graph_annotation:
  "map (\<lambda>item. (it_id item, it_showGraph item, it_graphURL item))
     (parseDescriptionFromWatsonResponse url sid (Some ts)) =
   map (\<lambda>(d, n).
          (n_id n,
           if n_id n \<in> {''personality'', ''Openness'', ''Conscientiousness'', ''Extraversion'',
                ''Agreeableness'', ''Neuroticism'', ''needs'', ''values''}
           then (''true'', Some (url @ ''/getGraph/'' @ n_id n @ ''/?sessionId='' @ sid))
           else (''false'', None)))
     (filter (\<lambda>(d, n). d \<noteq> 1) (preorder 0 ts))"
proof -
  have ids: "set idsWithGraphs = {''personality'', ''Openness'', ''Conscientiousness'',
      ''Extraversion'', ''Agreeableness'', ''Neuroticism'', ''needs'', ''values''}"
    by (simp add: idsWithGraphs_def)
  show ?thesis
    unfolding flatten_preorder map_map comp_def case_prod_unfold graph_annotate ids [symmetric]
    by (simp add: it_fields_annotate createChildFromJSON_def)
qed

theorem graph_annotation_witness:
  "map (\<lambda>item. (it_id item, it_showGraph item, it_graphURL item))
     (parseDescriptionFromWatsonResponse ''http://host'' ''s1'' (Some exampleTree)) =
   [(''personality'', ''true'', Some ''http://host/getGraph/personality/?sessionId=s1''),
    (''Intellect'', ''false'', None),
    (''empty'', ''false'', None),
    (''leaf'', ''false'', None)]"
  using graph_annotation [of "''http://host''" "''s1''" exampleTree]
  by (simp add: example_preorder)

text \<open>
  Claim C3: the hasChildren flag of an emitted item is the string \<^verbatim>\<open>"true"\<close> when the
  source node has a children field, also an empty one, and \<^verbatim>\<open>"false"\<close> when the field
  is absent.
\<close>

theorem hasChildren_flag:
  "map (\<lambda>item. (it_id item, it_hasChildren item))
     (parseDescriptionFromWatsonResponse url sid (Some ts)) =
   map (\<lambda>(d, n). (n_id n, if n_children n = None then ''false'' else ''true''))
     (filter (\<lambda>(d, n). d \<noteq> 1) (preorder 0 ts))"
  unfolding flatten_preorder map_map comp_def case_prod_unfold it_fields_annotate
  by (simp add: createChildFromJSON_def)

theorem hasChildren_flag_witness:
  "map (\<lambda>item. (it_id item, it_hasChildren item))
     (parseDescriptionFromWatsonResponse ''http://host'' ''s1'' (Some exampleTree)) =
   [(''personality'', ''true''), (''Intellect'', ''false''), (''empty'', ''true''),
    (''leaf'', ''false'')]"
  using hasChildren_flag [of "''http://host''" "''s1''" exampleTree]
  by (simp add: example_preorder)

section \<open>The locator\<close>

text \<open>
  Claim C4: when \<open>m\<close> is the first node in pre-order whose id is the target, the locator
  returns the single child of \<open>m\<close> if \<open>m\<close> has exactly one child, and \<open>m\<close> itself if it
  has none or more than one.
\<close>

theorem locator_first_match:
  assumes "find (\<lambda>n. n_id n = t) (map snd (preorder 0 ts)) = Some m"
  shows "(\<forall>c. n_children m = Some [c] \<longrightarrow> getChildWithId t (Some ts) = Some c)
       \<and> (childCount m \<noteq> 1 \<longrightarrow> getChildWithId t (Some ts) = Some m)"
proof -
  from assms have r: "getChildWithId t (Some ts) = Some (unwrap m)"
    by (simp add: getChildWithId_find(1))
  have "unwrap m = c" if "n_children m = Some [c]" for c
    using that by (simp add: unwrap_def)
  moreover have "unwrap m = m" if "childCount m \<noteq> 1"
    using that by (auto simp: unwrap_def childCount_def split: option.splits list.splits)
  ultimately show ?thesis using r by simp
qed

theorem locator_first_match_witness:
  "getChildWithId ''values'' (Some locatorTree) =
     Some (Node ''inner'' ''Inner values'' None
                 (Some [Node ''needs'' ''Needs'' None
                          (Some [Node ''n1'' ''Challenge'' (Some (1 / 2)) None,
                                 Node ''n2'' ''Closeness'' (Some (1 / 4)) None,
                                 Node ''n3'' ''Curiosity'' (Some (1 / 8)) None])]))
   \<and> getChildWithId ''needs'' (Some locatorTree) =
     Some (Node ''needs'' ''Needs'' None
                          (Some [Node ''n1'' ''Challenge'' (Some (1 / 2)) None,
                                 Node ''n2'' ''Closeness'' (Some (1 / 4)) None,
                                 Node ''n3'' ''Curiosity'' (Some (1 / 8)) None]))"
proof -
  have v: "find (\<lambda>n. n_id n = ''values'') (map snd (preorder 0 locatorTree))
             = Some (hd locatorTree)"
    by (simp add: locatorTree_def)
  have n: "find (\<lambda>n. n_id n = ''needs'') (map snd (preorder 0 locatorTree)) =
      Some (Node ''needs'' ''Needs'' None
                          (Some [Node ''n1'' ''Challenge'' (Some (1 / 2)) None,
                                 Node ''n2'' ''Closeness'' (Some (1 / 4)) None,
                                 Node ''n3'' ''Curiosity'' (Some (1 / 8)) None]))"
    by (simp add: locatorTree_def)
  from locator_first_match [OF v] locator_first_match [OF n] show ?thesis
    by (simp add: locatorTree_def childCount_def)
qed

text \<open>
  Claim C7: for a target that is the id of no node of the tree the locator returns
  \<open>None\<close>, as it does when the top-level children are absent; the result type has no
  error, the locator reads nothing that can be missing.
\<close>

theorem locator_miss:
  "getChildWithId t None = None
   \<and> (t \<notin> set (map (\<lambda>(d, n). n_id n) (preorder 0 ts)) \<longrightarrow> getChildWithId t (Some ts) = None)"
proof -
  have "find (\<lambda>n. n_id n = t) (map snd (preorder 0 ts)) = None"
    if "t \<notin> set (map (\<lambda>(d, n). n_id n) (preorder 0 ts))"
    using that by (auto simp: find_None_iff)
  then show ?thesis
    by (simp add: getChildWithId_find(1))
qed

theorem locator_miss_witness:
  "''Openness'' \<notin> set (map (\<lambda>(d, n). n_id n) (preorder 0 locatorTree))
   \<and> getChildWithId ''Openness'' (Some locatorTree) = None"
proof -
  have h: "''Openness'' \<notin> set (map (\<lambda>(d, n). n_id n) (preorder 0 locatorTree))"
    by (simp add: locatorTree_def)
  with locator_miss [of "''Openness''" locatorTree] show ?thesis by simp
qed

section \<open>Filtering and classification\<close>

text \<open>
  Claim C5: no item of the flattener's output has the depth tag \<^verbatim>\<open>"2"\<close>, and the output
  is, in order, the nodes of the pre-order traversal whose 1-based depth is not 2, so the
  descendants of the dropped nodes stay.
\<close>

theorem depth2_items_dropped:
  "(\<forall>item \<in> set (parseDescriptionFromWatsonResponse url sid tree). it_type item \<noteq> ''2'')
   \<and> map (\<lambda>item. (it_id item, it_type item))
        (parseDescriptionFromWatsonResponse url sid (Some ts)) =
      map (\<lambda>(d, n). (n_id n, toString (d + 1)))
        (filter (\<lambda>(d, n). d + 1 \<noteq> 2) (preorder 0 ts))"
proof
  show "\<forall>item \<in> set (parseDescriptionFromWatsonResponse url sid tree). it_type item \<noteq> ''2''"
    by (auto simp: parseDescriptionFromWatsonResponse_def it_fields_annotate)
  show "map (\<lambda>item. (it_id item, it_type item))
        (parseDescriptionFromWatsonResponse url sid (Some ts)) =
      map (\<lambda>(d, n). (n_id n, toString (d + 1)))
        (filter (\<lambda>(d, n). d + 1 \<noteq> 2) (preorder 0 ts))"
    unfolding flatten_preorder map_map comp_def case_prod_unfold it_fields_annotate
    by (simp add: createChildFromJSON_def)
qed

theorem depth2_items_dropped_witness:
  "parseDescriptionFromWatsonResponse ''http://host'' ''s1'' (Some exampleTree) ! 1
     \<in> set (parseDescriptionFromWatsonResponse ''http://host'' ''s1'' (Some exampleTree))
   \<and> it_type (parseDescriptionFromWatsonResponse ''http://host'' ''s1'' (Some exampleTree) ! 1)
        \<noteq> ''2''
   \<and> map (\<lambda>item. (it_id item, it_type item))
        (parseDescriptionFromWatsonResponse ''http://host'' ''s1'' (Some exampleTree)) =
      [(''personality'', ''1''), (''Intellect'', ''3''), (''empty'', ''1''), (''leaf'', ''1'')]"
proof -
  note inst = depth2_items_dropped [of "''http://host''" "''s1''" "Some exampleTree" exampleTree]
  have mem: "parseDescriptionFromWatsonResponse ''http://host'' ''s1'' (Some exampleTree) ! 1
     \<in> set (parseDescriptionFromWatsonResponse ''http://host'' ''s1'' (Some exampleTree))"
    by (simp add: flatten_preorder example_preorder)
  from inst [THEN conjunct1, rule_format, OF mem]
  have a: "it_type (parseDescriptionFromWatsonResponse ''http://host'' ''s1'' (Some exampleTree) ! 1)
        \<noteq> ''2''" .
  from inst [THEN conjunct2]
  have b: "map (\<lambda>item. (it_id item, it_type item))
        (parseDescriptionFromWatsonResponse ''http://host'' ''s1'' (Some exampleTree)) =
      [(''personality'', ''1''), (''Intellect'', ''3''), (''empty'', ''1''), (''leaf'', ''1'')]"
    by (simp add: example_preorder toString_small digit_def)
  from mem a b show ?thesis by blast
qed

text \<open>
  Claim C6: for every emitted item, isHeader holds iff the depth tag is \<^verbatim>\<open>"1"\<close>,
  isSubheader iff the depth tag is \<^verbatim>\<open>"3"\<close> and hasChildren is \<^verbatim>\<open>"true"\<close>, isLeaf iff
  hasChildren is \<^verbatim>\<open>"false"\<close> and the depth tag is \<^verbatim>\<open>"3"\<close> or \<^verbatim>\<open>"4"\<close>; no item is
  both header and subheader, or both header and leaf.
\<close>

theorem classification:
  "\<forall>item \<in> set (parseDescriptionFromWatsonResponse url sid tree).
     (it_isHeader item \<longleftrightarrow> it_type item = ''1'')
     \<and> (it_isSubheader item \<longleftrightarrow> it_type item = ''3'' \<and> it_hasChildren item = ''true'')
     \<and> (it_isLeaf item \<longleftrightarrow>
          it_hasChildren item = ''false'' \<and> (it_type item = ''3'' \<or> it_type item = ''4''))
     \<and> \<not> (it_isHeader item \<and> it_isSubheader item)
     \<and> \<not> (it_isHeader item \<and> it_isLeaf item)"
  by (auto simp: parseDescriptionFromWatsonResponse_def annotate_def Let_def child.defs
        isHeader_def isSubheader_def isLeaf_def)

theorem classification_witness:
  "(let item = parseDescriptionFromWatsonResponse ''http://host'' ''s1'' (Some exampleTree) ! 1
    in item \<in> set (parseDescriptionFromWatsonResponse ''http://host'' ''s1'' (Some exampleTree))
       \<and> it_type item = ''3'' \<and> it_hasChildren item = ''false''
       \<and> it_isLeaf item \<and> \<not> it_isHeader item \<and> \<not> it_isSubheader item)"
proof -
  define item where
    "item = parseDescriptionFromWatsonResponse ''http://host'' ''s1'' (Some exampleTree) ! 1"
  have mem: "item \<in> set (parseDescriptionFromWatsonResponse ''http://host'' ''s1''
      (Some exampleTree))"
    by (simp add: item_def flatten_preorder example_preorder)
  have ev: "it_type item = ''3''" "it_hasChildren item = ''false''"
    by (simp_all add: item_def flatten_preorder example_preorder it_fields_annotate
          createChildFromJSON_def toString_small digit_def)
  from classification [rule_format, OF mem] ev mem show ?thesis
    unfolding Let_def item_def [symmetric] by simp
qed

section \<open>Traversal order\<close>

text \<open>
  Claim C9: the flattener emits the nodes in pre-order (a node, then its descendants, then
  its next sibling), one item per node, and the depth tag of an item is the decimal
  numeral of the node's depth plus one, the root's direct children having depth 0 and so
  the tag \<^verbatim>\<open>"1"\<close>.
\<close>

theorem flattener_preorder:
  "parseChildren url (Some ts) 0 = map (\<lambda>(d, n). createChildFromJSON url n d) (preorder 0 ts)
   \<and> map (\<lambda>item. (it_id item, it_type item)) (parseChildren url (Some ts) 0) =
       map (\<lambda>(d, n). (n_id n, toString (d + 1))) (preorder 0 ts)"
  by (simp add: parse_preorder(1) comp_def case_prod_unfold createChildFromJSON_def)

theorem flattener_preorder_witness:
  "map (\<lambda>item. (it_id item, it_type item)) (parseChildren ''http://host'' (Some exampleTree) 0) =
     [(''personality'', ''1''), (''Openness'', ''2''), (''Intellect'', ''3''), (''empty'', ''1''),
      (''leaf'', ''1'')]"
  using flattener_preorder [of "''http://host''" exampleTree, THEN conjunct2]
  by (simp add: example_preorder toString_small digit_def del: parseChildren.simps)

section \<open>Chart data\<close>

text \<open>
  Claim C8 (the core operations never raise): \<^verbatim>\<open>createChartData\<close> raises a TypeError
  on a node without a children field, and the locator hands it such a node when the
  requested id is that of a leaf.
\<close>

theorem createChartData_raises_on_leaf:
  "createChartData (Node ''leaf'' ''Leaf'' (Some (1 / 2)) None) = Inl TypeError
   \<and> getChildWithId ''leaf'' (Some [Node ''leaf'' ''Leaf'' (Some (1 / 2)) None])
       = Some (Node ''leaf'' ''Leaf'' (Some (1 / 2)) None)
   \<and> getGraph ''leaf'' (Some [Node ''leaf'' ''Leaf'' (Some (1 / 2)) None]) = Some (Inl TypeError)"
  by (simp add: createChartData_def getGraph_def)

text \<open>The part of the claim about an empty or absent top-level list holds.\<close>

lemma flatten_empty:
  "parseDescriptionFromWatsonResponse url sid None = []"
  "parseDescriptionFromWatsonResponse url sid (Some []) = []"
  by (simp_all add: parseDescriptionFromWatsonResponse_def)

text \<open>
  Claim C10: for a node with a children field, chart data construction returns one slice
  per child, in child order, and slice \<open>i\<close> has the colour and the highlight at index
  \<open>i mod 6\<close> of the two palettes of six entries; so slice \<open>i + 6\<close> has the colour and
  the highlight of slice \<open>i\<close>.
\<close>

theorem palette_cycles:
  assumes "n_children rootJSON = Some cs"
  shows "\<exists>slices. createChartData rootJSON = Inr slices \<and> length slices = length cs
     \<and> (\<forall>i < length cs. sl_color (slices ! i) = colors ! (i mod 6)
            \<and> sl_highlight (slices ! i) = highlights ! (i mod 6)
            \<and> sl_label (slices ! i) = n_name (cs ! i))
     \<and> (\<forall>i. i + 6 < length cs \<longrightarrow> sl_color (slices ! (i + 6)) = sl_color (slices ! i)
            \<and> sl_highlight (slices ! (i + 6)) = sl_highlight (slices ! i))
     \<and> length colors = 6 \<and> length highlights = 6"
  using assms by (simp add: createChartData_def chart_loop palette_sizes)

theorem palette_cycles_witness:
  "\<exists>slices. createChartData chartNode = Inr slices \<and> length slices = 8
     \<and> sl_color (slices ! 0) = ''#4178BD'' \<and> sl_color (slices ! 6) = ''#4178BD''
     \<and> sl_highlight (slices ! 0) = ''#5596E6'' \<and> sl_highlight (slices ! 6) = ''#5596E6''"
proof -
  have h: "n_children chartNode
             = Some (map (\<lambda>k. Node ''n'' ''Need'' (Some (1 / 8)) None) [0..<8])"
    by (simp add: chartNode_def)
  from palette_cycles [OF h] obtain slices where
    s: "createChartData chartNode = Inr slices" "length slices = 8"
      "\<forall>i < 8. sl_color (slices ! i) = colors ! (i mod 6)
            \<and> sl_highlight (slices ! i) = highlights ! (i mod 6)"
    by auto
  from s(3) have "sl_color (slices ! 0) = colors ! 0" "sl_color (slices ! 6) = colors ! 0"
    "sl_highlight (slices ! 0) = highlights ! 0" "sl_highlight (slices ! 6) = highlights ! 0"
    by (auto dest: spec [of _ 0] spec [of _ 6])
  with s(1,2) show ?thesis
    by (auto simp: colors_def highlights_def)
qed

end
